theory Spec2Isabelle
  imports Main
begin

section \<open>Data model\<close>

text \<open>
  The documents of the four collections the workflow handlers touch. An ObjectId is an
  opaque, already well-formed identifier (a natural number here); the time stamps that
  the persistence layer maintains (createdAt, updatedAt) depend on the wall clock and
  are left out, as are the profile fields of a user that no workflow handler reads
  (password, university, department, phone, shadowDelete).
\<close>

type_synonym oid = nat

datatype UserRole = ADMIN | AUTHOR | REVIEWER | EDITOR

datatype ManuscriptStatus = SUBMITTED | UNDER_REVIEW | DECISION_READY | ACCEPTED | REJECTED

datatype ReviewRecommendation = ACCEPT | MINOR_REVISION | MAJOR_REVISION | REJECT

record User =
  uid :: oid
  fullname :: string
  email :: string
  role :: UserRole
  isActive :: bool

record Manuscript =
  mid :: oid
  title :: string
  abstract :: string
  keywordsM :: string
  authors :: string
  submittedBy :: oid
  assignedReviewers :: "oid list"
  status :: ManuscriptStatus
  fileName :: string
  fileUrl :: "string option"

record Review =
  rid :: oid
  manuscriptId :: oid
  reviewerId :: oid
  recommendation :: ReviewRecommendation
  comments :: string
  strengths :: string
  weaknesses :: string
  suggestions :: string

record Notification =
  nid :: oid
  userId :: oid
  message :: string
  isRead :: bool

text \<open>The file that the upload middleware attaches to a submission request.\<close>

record UploadedFile =
  originalname :: string
  filename :: string

text \<open>
  Every write that a handler sends to the store is appended to a journal, in the order
  in which the handler awaits it. The journal is the only record of that order.
\<close>

datatype dbWrite =
    ManuscriptWrite oid
  | ReviewWrite oid
  | NotificationWrite oid
  | NotificationUpdateMany oid

record db =
  users :: "User list"
  manuscripts :: "Manuscript list"
  reviews :: "Review list"
  notifications :: "Notification list"
  nextId :: oid
  journal :: "dbWrite list"

section \<open>Results\<close>

text \<open>
  A handler either answers with \<open>res.status(code).json({success: false, message})\<close>,
  classified by the error taxonomy (validation, authentication, authorization, not found,
  conflict, state), or an exception of the persistence layer escapes and \<open>catchAsync\<close>
  forwards it to the global error handler.
\<close>

datatype error =
    ValidationError
  | AuthenticationError
  | AuthorizationError
  | NotFoundError
  | ConflictError
  | StateError

datatype failure =
    Rejected error nat string
  | Thrown string

section \<open>Strings and enum values\<close>

definition dq :: string where
  "dq = [CHR 0x22]"

definition isWhiteSpace :: "char \<Rightarrow> bool" where
  "isWhiteSpace c = (c \<in> set [CHR 0x09, CHR 0x0A, CHR 0x0B, CHR 0x0C, CHR 0x0D, CHR 0x20, CHR 0xA0])"

text \<open>The \<open>trim: true\<close> setter of a schema string.\<close>

definition trim :: "string \<Rightarrow> string" where
  "trim s = rev (dropWhile isWhiteSpace (rev (dropWhile isWhiteSpace s)))"

text \<open>JavaScript's \<open>!v\<close> on an optional string of the request body.\<close>

definition falsy :: "string option \<Rightarrow> bool" where
  "falsy v = (case v of None \<Rightarrow> True | Some s \<Rightarrow> s = [])"

text \<open>\<open>v || dflt\<close> on an optional string.\<close>

definition orElse :: "string option \<Rightarrow> string \<Rightarrow> string" where
  "orElse v dflt = (case v of None \<Rightarrow> dflt | Some s \<Rightarrow> (if s = [] then dflt else s))"

text \<open>\<open>Object.values(ManuscriptStatus).includes(s)\<close>, returning the member found.\<close>

definition parseStatus :: "string \<Rightarrow> ManuscriptStatus option" where
  "parseStatus s =
     (if s = ''SUBMITTED'' then Some SUBMITTED
      else if s = ''UNDER_REVIEW'' then Some UNDER_REVIEW
      else if s = ''DECISION_READY'' then Some DECISION_READY
      else if s = ''ACCEPTED'' then Some ACCEPTED
      else if s = ''REJECTED'' then Some REJECTED
      else None)"

definition parseRecommendation :: "string \<Rightarrow> ReviewRecommendation option" where
  "parseRecommendation s =
     (if s = ''ACCEPT'' then Some ACCEPT
      else if s = ''MINOR_REVISION'' then Some MINOR_REVISION
      else if s = ''MAJOR_REVISION'' then Some MAJOR_REVISION
      else if s = ''REJECT'' then Some REJECT
      else None)"

section \<open>The persistence layer\<close>

text \<open>\<open>Model.updateOne\<close> by a filter: the first matching document is replaced.\<close>

fun replaceFirst :: "('a \<Rightarrow> bool) \<Rightarrow> ('a \<Rightarrow> 'a) \<Rightarrow> 'a list \<Rightarrow> 'a list" where
  "replaceFirst p f [] = []"
| "replaceFirst p f (x # xs) = (if p x then f x # xs else x # replaceFirst p f xs)"

definition Manuscript_findById :: "db \<Rightarrow> oid \<Rightarrow> Manuscript option" where
  "Manuscript_findById d i = find (\<lambda>m. mid m = i) (manuscripts d)"

definition User_findById :: "db \<Rightarrow> oid \<Rightarrow> User option" where
  "User_findById d i = find (\<lambda>u. uid u = i) (users d)"

text \<open>\<open>manuscript.save()\<close> of a document loaded before.\<close>

definition Manuscript_save :: "db \<Rightarrow> Manuscript \<Rightarrow> db" where
  "Manuscript_save d m =
     d\<lparr>manuscripts := replaceFirst (\<lambda>x. mid x = mid m) (\<lambda>_. m) (manuscripts d),
       journal := journal d @ [ManuscriptWrite (mid m)]\<rparr>"

text \<open>
  \<open>Manuscript.create\<close>: title, abstract, keywords and authors are trimmed and required,
  the file name is required; a violated validator throws.
\<close>

definition Manuscript_create ::
  "db \<Rightarrow> string \<Rightarrow> string \<Rightarrow> string \<Rightarrow> string \<Rightarrow> string \<Rightarrow> string \<Rightarrow> oid
     \<Rightarrow> string + (db \<times> Manuscript)" where
  "Manuscript_create d t a k au fn fu u =
     (if trim t = [] \<or> trim a = [] \<or> trim k = [] \<or> trim au = [] \<or> fn = []
      then Inl ''ValidationError''
      else
        let m = \<lparr>mid = nextId d, title = trim t, abstract = trim a, keywordsM = trim k,
                 authors = trim au, submittedBy = u, assignedReviewers = [],
                 status = SUBMITTED, fileName = fn, fileUrl = Some fu\<rparr>
        in Inr (d\<lparr>manuscripts := manuscripts d @ [m], nextId := Suc (nextId d),
                  journal := journal d @ [ManuscriptWrite (mid m)]\<rparr>, m))"

text \<open>
  \<open>Review.create\<close>: the recommendation is required and a member of the enum, the
  comments are required.
\<close>

definition Review_create ::
  "db \<Rightarrow> oid \<Rightarrow> oid \<Rightarrow> string option \<Rightarrow> string option \<Rightarrow> string \<Rightarrow> string \<Rightarrow> string
     \<Rightarrow> string + (db \<times> Review)" where
  "Review_create d m u rec com str weak sug =
     (case rec of
        None \<Rightarrow> Inl ''ValidationError''
      | Some rs \<Rightarrow>
          (case parseRecommendation rs of
             None \<Rightarrow> Inl ''ValidationError''
           | Some r \<Rightarrow>
               (case com of
                  None \<Rightarrow> Inl ''ValidationError''
                | Some c \<Rightarrow>
                    if c = [] then Inl ''ValidationError''
                    else
                      let rv = \<lparr>rid = nextId d, manuscriptId = m, reviewerId = u,
                                recommendation = r, comments = c, strengths = str,
                                weaknesses = weak, suggestions = sug\<rparr>
                      in Inr (d\<lparr>reviews := reviews d @ [rv], nextId := Suc (nextId d),
                                journal := journal d @ [ReviewWrite m]\<rparr>, rv))))"

text \<open>
  \<open>Notification.create\<close>: the message is trimmed, required and at most 500 characters
  long; a violated validator throws and nothing is stored.
\<close>

definition Notification_create :: "db \<Rightarrow> oid \<Rightarrow> string \<Rightarrow> string + db" where
  "Notification_create d u msg =
     (if trim msg = [] \<or> 500 < length (trim msg) then Inl ''ValidationError''
      else Inr (d\<lparr>notifications := notifications d @
                     [\<lparr>nid = nextId d, userId = u, message = trim msg, isRead = False\<rparr>],
                  nextId := Suc (nextId d),
                  journal := journal d @ [NotificationWrite u]\<rparr>))"

text \<open>
  \<open>await Promise.all(ids.map(id => Notification.create({userId: id, message})))\<close>: every
  creation is started; the ones that validate are stored, and the call throws when one
  of them was refused. The creations are taken in the order of the list.
\<close>

fun Notification_createAll :: "db \<Rightarrow> oid list \<Rightarrow> string \<Rightarrow> db \<times> string option" where
  "Notification_createAll d [] msg = (d, None)"
| "Notification_createAll d (u # us) msg =
     (case Notification_create d u msg of
        Inl e \<Rightarrow> (fst (Notification_createAll d us msg), Some e)
      | Inr d' \<Rightarrow> Notification_createAll d' us msg)"

text \<open>\<open>Review.countDocuments({manuscriptId: id})\<close>\<close>

definition Review_countDocuments :: "db \<Rightarrow> oid \<Rightarrow> nat" where
  "Review_countDocuments d i = length (filter (\<lambda>r. manuscriptId r = i) (reviews d))"

text \<open>\<open>Review.findOne({manuscriptId: id, reviewerId: userId})\<close>\<close>

definition Review_findOne :: "db \<Rightarrow> oid \<Rightarrow> oid \<Rightarrow> Review option" where
  "Review_findOne d i u = find (\<lambda>r. manuscriptId r = i \<and> reviewerId r = u) (reviews d)"

text \<open>\<open>User.find({role: {$in: [ADMIN, EDITOR]}}).select('_id')\<close>\<close>

definition adminsAndEditors :: "db \<Rightarrow> oid list" where
  "adminsAndEditors d = map uid (filter (\<lambda>u. role u = ADMIN \<or> role u = EDITOR) (users d))"

text \<open>\<open>User.find({role: ADMIN}).select('_id')\<close>\<close>

definition admins :: "db \<Rightarrow> oid list" where
  "admins d = map uid (filter (\<lambda>u. role u = ADMIN) (users d))"

text \<open>\<open>(await User.findById(id).select('fullname'))?.fullname || dflt\<close>\<close>

definition nameOf :: "db \<Rightarrow> oid \<Rightarrow> string \<Rightarrow> string" where
  "nameOf d i dflt =
     (case User_findById d i of
        None \<Rightarrow> dflt
      | Some u \<Rightarrow> (if fullname u = [] then dflt else fullname u))"

text \<open>
  Whether an identifier resolves to an active user with role REVIEWER, the three conditions
  of the query in \<open>assignReviewers\<close>.
\<close>

definition isActiveReviewer :: "db \<Rightarrow> oid \<Rightarrow> bool" where
  "isActiveReviewer d i = list_ex (\<lambda>u. uid u = i \<and> role u = REVIEWER \<and> isActive u) (users d)"

text \<open>The status stored for a manuscript, when the manuscript exists.\<close>

definition statusOf :: "db \<Rightarrow> oid \<Rightarrow> ManuscriptStatus option" where
  "statusOf d i = map_option status (Manuscript_findById d i)"

section \<open>Notification handlers\<close>

text \<open>
  \<open>markAllAsRead\<close>: \<open>Notification.updateMany({userId, isRead: false}, {isRead: true})\<close>,
  answered with 200 and the number of documents modified. The route is mounted behind
  \<open>protect\<close>, which sets \<open>req.user\<close>.
\<close>

definition markAllAsRead :: "db \<Rightarrow> oid \<Rightarrow> db \<times> (failure + nat)" where
  "markAllAsRead d u =
     (d\<lparr>notifications :=
           map (\<lambda>n. if userId n = u \<and> \<not> isRead n then n\<lparr>isRead := True\<rparr> else n)
             (notifications d),
         journal := journal d @ [NotificationUpdateMany u]\<rparr>,
      Inr (length (filter (\<lambda>n. userId n = u \<and> \<not> isRead n) (notifications d))))"

section \<open>Manuscript handlers\<close>

text \<open>
  Each handler takes the store and the parts of the request it reads, and returns the
  store it leaves behind together with its answer. A field of the request body is an
  optional string (or an optional list of identifiers), \<open>req.user?.id\<close> an optional
  identifier. \<open>populate\<close> only joins user details into the answer and is left out.
\<close>

definition submitManuscript ::
  "db \<Rightarrow> UploadedFile option \<Rightarrow> string option \<Rightarrow> string option \<Rightarrow> string option
     \<Rightarrow> string option \<Rightarrow> oid option \<Rightarrow> db \<times> (failure + Manuscript)" where
  "submitManuscript d file t a k au user =
     (case file of
        None \<Rightarrow>
          (d, Inl (Rejected ValidationError 400
                     ''Please upload a manuscript file (PDF or DOCX)''))
      | Some f \<Rightarrow>
          if falsy t \<or> falsy a \<or> falsy k \<or> falsy au
          then (d, Inl (Rejected ValidationError 400
                 ''Please provide all required fields: title, abstract, keywords, and authors''))
          else
            (case user of
               None \<Rightarrow> (d, Inl (Rejected AuthenticationError 401 ''User not authenticated''))
             | Some u \<Rightarrow>
                 (case Manuscript_create d (orElse t []) (orElse a []) (orElse k [])
                         (orElse au []) (originalname f)
                         (''/uploads/manuscripts/'' @ filename f) u of
                    Inl e \<Rightarrow> (d, Inl (Thrown e))
                  | Inr (d1, manuscript) \<Rightarrow>
                      let authorName = nameOf d1 u ''An author'' in
                      (case Notification_create d1 u
                              (''Your manuscript '' @ dq @ orElse t [] @ dq @
                               '' has been submitted successfully and is awaiting review.'') of
                         Inl e \<Rightarrow> (d1, Inl (Thrown e))
                       | Inr d2 \<Rightarrow>
                           (case Notification_createAll d2 (adminsAndEditors d2)
                                   (''New manuscript submission: '' @ dq @ orElse t [] @ dq @
                                    '' by '' @ authorName) of
                              (d3, Some e) \<Rightarrow> (d3, Inl (Thrown e))
                            | (d3, None) \<Rightarrow> (d3, Inr manuscript))))))"

definition assignReviewers ::
  "db \<Rightarrow> oid \<Rightarrow> oid option \<Rightarrow> oid list option \<Rightarrow> db \<times> (failure + Manuscript)" where
  "assignReviewers d i actor reviewerIds =
     (case reviewerIds of
        None \<Rightarrow>
          (d, Inl (Rejected ValidationError 400 ''Please provide an array of reviewer IDs''))
      | Some ids \<Rightarrow>
          if length ids = 0
          then (d, Inl (Rejected ValidationError 400 ''Please provide an array of reviewer IDs''))
          else
            (case Manuscript_findById d i of
               None \<Rightarrow> (d, Inl (Rejected NotFoundError 404 ''Manuscript not found''))
             | Some manuscript \<Rightarrow>
                 let reviewers =
                       filter (\<lambda>u. uid u \<in> set ids \<and> role u = REVIEWER \<and> isActive u) (users d)
                 in
                 if length reviewers \<noteq> length ids
                 then (d, Inl (Rejected ValidationError 400
                        ''One or more invalid reviewer IDs or reviewers are not active''))
                 else
                   let saved = manuscript\<lparr>assignedReviewers := ids, status := UNDER_REVIEW\<rparr>;
                       d1 = Manuscript_save d saved;
                       editorName =
                         (case actor of
                            None \<Rightarrow> ''An editor''
                          | Some e \<Rightarrow> nameOf d1 e ''An editor'');
                       authorName = nameOf d1 (submittedBy saved) ''Unknown author''
                   in
                   (case Notification_create d1 (submittedBy saved)
                           (''Your manuscript '' @ dq @ title saved @ dq @
                            '' has been assigned to reviewers and is now under review.'') of
                      Inl e \<Rightarrow> (d1, Inl (Thrown e))
                    | Inr d2 \<Rightarrow>
                        (case Notification_createAll d2 ids
                                (''You have been assigned to review the manuscript '' @ dq @
                                 title saved @ dq @ '' by '' @ authorName @ ''.'') of
                           (d3, Some e) \<Rightarrow> (d3, Inl (Thrown e))
                         | (d3, None) \<Rightarrow>
                             (case Notification_createAll d3 (adminsAndEditors d3)
                                     (editorName @ '' assigned reviewers to manuscript '' @ dq @
                                      title saved @ dq @ '' by '' @ authorName @ ''.'') of
                                (d4, Some e) \<Rightarrow> (d4, Inl (Thrown e))
                              | (d4, None) \<Rightarrow> (d4, Inr saved))))))"

definition updateManuscriptStatus ::
  "db \<Rightarrow> oid \<Rightarrow> string option \<Rightarrow> db \<times> (failure + Manuscript)" where
  "updateManuscriptStatus d i st =
     (case st of
        None \<Rightarrow> (d, Inl (Rejected ValidationError 400 ''Please provide a valid status''))
      | Some s \<Rightarrow>
          (case parseStatus s of
             None \<Rightarrow> (d, Inl (Rejected ValidationError 400 ''Please provide a valid status''))
           | Some v \<Rightarrow>
               (case Manuscript_findById d i of
                  None \<Rightarrow> (d, Inl (Rejected NotFoundError 404 ''Manuscript not found''))
                | Some m \<Rightarrow>
                    (d\<lparr>manuscripts :=
                          replaceFirst (\<lambda>x. mid x = i) (\<lambda>x. x\<lparr>status := v\<rparr>) (manuscripts d),
                        journal := journal d @ [ManuscriptWrite i]\<rparr>,
                     Inr (m\<lparr>status := v\<rparr>)))))"

definition submitReview ::
  "db \<Rightarrow> oid \<Rightarrow> oid option \<Rightarrow> string option \<Rightarrow> string option \<Rightarrow> string option
     \<Rightarrow> string option \<Rightarrow> string option \<Rightarrow> db \<times> (failure + Review \<times> ManuscriptStatus)" where
  "submitReview d i user rec com str weak sug =
     (case user of
        None \<Rightarrow> (d, Inl (Rejected AuthenticationError 401 ''User not authenticated''))
      | Some u \<Rightarrow>
          (case Manuscript_findById d i of
             None \<Rightarrow> (d, Inl (Rejected NotFoundError 404 ''Manuscript not found''))
           | Some manuscript \<Rightarrow>
               if \<not> list_ex (\<lambda>reviewer. reviewer = u) (assignedReviewers manuscript)
               then (d, Inl (Rejected AuthorizationError 403
                      ''You are not assigned to review this manuscript''))
               else
                 (case Review_findOne d i u of
                    Some existingReview \<Rightarrow>
                      (d, Inl (Rejected ConflictError 400
                         ''You have already submitted a review for this manuscript''))
                  | None \<Rightarrow>
                      (case Review_create d i u rec com (orElse str []) (orElse weak [])
                              (orElse sug []) of
                         Inl e \<Rightarrow> (d, Inl (Thrown e))
                       | Inr (d1, review) \<Rightarrow>
                           let reviewerName = nameOf d1 u ''A reviewer'';
                               authorName = nameOf d1 (submittedBy manuscript) ''Unknown author''
                           in
                           (case Notification_create d1 (submittedBy manuscript)
                                   (''A review has been submitted for your manuscript '' @ dq @
                                    title manuscript @ dq @ ''.'') of
                              Inl e \<Rightarrow> (d1, Inl (Thrown e))
                            | Inr d2 \<Rightarrow>
                                (case Notification_createAll d2 (adminsAndEditors d2)
                                        (reviewerName @ '' submitted a review for manuscript '' @
                                         dq @ title manuscript @ dq @ '' by '' @ authorName @
                                         ''.'') of
                                   (d3, Some e) \<Rightarrow> (d3, Inl (Thrown e))
                                 | (d3, None) \<Rightarrow>
                                     let totalReviews = Review_countDocuments d3 i;
                                         totalAssignedReviewers =
                                           length (assignedReviewers manuscript)
                                     in
                                     if totalReviews \<ge> totalAssignedReviewers
                                     then (Manuscript_save d3
                                             (manuscript\<lparr>status := DECISION_READY\<rparr>),
                                           Inr (review, DECISION_READY))
                                     else if status manuscript = SUBMITTED
                                     then (Manuscript_save d3
                                             (manuscript\<lparr>status := UNDER_REVIEW\<rparr>),
                                           Inr (review, UNDER_REVIEW))
                                     else (d3, Inr (review, status manuscript))))))))"

definition makeDecision ::
  "db \<Rightarrow> oid \<Rightarrow> oid option \<Rightarrow> string option \<Rightarrow> db \<times> (failure + Manuscript)" where
  "makeDecision d i actor decision =
     (if falsy decision \<or> decision \<notin> set [Some ''ACCEPTED'', Some ''REJECTED'']
      then (d, Inl (Rejected ValidationError 400
             ''Please provide a valid decision (ACCEPTED or REJECTED)''))
      else
        (case Manuscript_findById d i of
           None \<Rightarrow> (d, Inl (Rejected NotFoundError 404 ''Manuscript not found''))
         | Some manuscript \<Rightarrow>
             if status manuscript \<noteq> DECISION_READY
             then (d, Inl (Rejected StateError 400
                    ''Manuscript must be in DECISION_READY status before making a decision''))
             else
               let saved = manuscript\<lparr>status :=
                             (if decision = Some ''ACCEPTED'' then ACCEPTED else REJECTED)\<rparr>;
                   d1 = Manuscript_save d saved;
                   editorName =
                     (case actor of
                        None \<Rightarrow> ''An editor''
                      | Some e \<Rightarrow> nameOf d1 e ''An editor'');
                   authorName = nameOf d1 (submittedBy saved) ''Unknown author'';
                   decisionText =
                     (if decision = Some ''ACCEPTED'' then ''accepted'' else ''rejected'')
               in
               (case Notification_create d1 (submittedBy saved)
                       (''Your manuscript '' @ dq @ title saved @ dq @ '' has been '' @
                        decisionText @ ''.'') of
                  Inl e \<Rightarrow> (d1, Inl (Thrown e))
                | Inr d2 \<Rightarrow>
                    (case Notification_createAll d2 (admins d2)
                            (editorName @ '' '' @ decisionText @ '' the manuscript '' @ dq @
                             title saved @ dq @ '' by '' @ authorName @ ''.'') of
                       (d3, Some e) \<Rightarrow> (d3, Inl (Thrown e))
                     | (d3, None) \<Rightarrow> (d3, Inr saved)))))"

section \<open>Observations\<close>

text \<open>The four collections of the store, without the journal and the identifier counter.\<close>

definition store :: "db \<Rightarrow> User list \<times> Manuscript list \<times> Review list \<times> Notification list" where
  "store d = (users d, manuscripts d, reviews d, notifications d)"

text \<open>Every field of a manuscript but its status.\<close>

definition unchangedFields ::
  "Manuscript \<Rightarrow> oid \<times> string \<times> string \<times> string \<times> string \<times> oid \<times> oid list \<times> string \<times> string option" where
  "unchangedFields m =
     (mid m, title m, abstract m, keywordsM m, authors m, submittedBy m, assignedReviewers m,
      fileName m, fileUrl m)"

section \<open>An example store\<close>

text \<open>
  An author (1), three active reviewers (2, 3, 7), an editor (4), an administrator (5) and
  a deactivated reviewer (6); manuscript 10 is under review by 2 and 3, manuscript 11 has
  been accepted after the review of its only reviewer 2, manuscript 12 is in status
  SUBMITTED with reviewers 2 and 3 recorded, manuscript 13 is under review by 3 alone.
\<close>

definition exampleUsers :: "User list" where
  "exampleUsers =
     [\<lparr>uid = 1, fullname = ''Ada'', email = ''ada@uni.edu'', role = AUTHOR, isActive = True\<rparr>,
      \<lparr>uid = 2, fullname = ''Bob'', email = ''bob@uni.edu'', role = REVIEWER, isActive = True\<rparr>,
      \<lparr>uid = 3, fullname = ''Cy'', email = ''cy@uni.edu'', role = REVIEWER, isActive = True\<rparr>,
      \<lparr>uid = 4, fullname = ''Di'', email = ''di@uni.edu'', role = EDITOR, isActive = True\<rparr>,
      \<lparr>uid = 5, fullname = ''Ed'', email = ''ed@uni.edu'', role = ADMIN, isActive = True\<rparr>,
      \<lparr>uid = 6, fullname = ''Flo'', email = ''flo@uni.edu'', role = REVIEWER, isActive = False\<rparr>,
      \<lparr>uid = 7, fullname = ''Gus'', email = ''gus@uni.edu'', role = REVIEWER, isActive = True\<rparr>]"

definition exampleManuscript :: "oid \<Rightarrow> oid list \<Rightarrow> ManuscriptStatus \<Rightarrow> Manuscript" where
  "exampleManuscript i rs st =
     \<lparr>mid = i, title = ''On Lists'', abstract = ''Lists.'', keywordsM = ''lists'',
      authors = ''Ada'', submittedBy = 1, assignedReviewers = rs, status = st,
      fileName = ''lists.pdf'', fileUrl = Some ''/uploads/manuscripts/1-lists.pdf''\<rparr>"

definition exampleReview :: Review where
  "exampleReview =
     \<lparr>rid = 20, manuscriptId = 11, reviewerId = 2, recommendation = ACCEPT,
      comments = ''Fine.'', strengths = [], weaknesses = [], suggestions = []\<rparr>"

definition exampleDb :: db where
  "exampleDb =
     \<lparr>users = exampleUsers,
      manuscripts = [exampleManuscript 10 [2, 3] UNDER_REVIEW,
                     exampleManuscript 11 [2] ACCEPTED,
                     exampleManuscript 12 [2, 3] SUBMITTED,
                     exampleManuscript 13 [3] UNDER_REVIEW],
      reviews = [exampleReview],
      notifications = [\<lparr>nid = 30, userId = 1, message = ''Welcome'', isRead = False\<rparr>,
                       \<lparr>nid = 31, userId = 2, message = ''Welcome'', isRead = True\<rparr>,
                       \<lparr>nid = 32, userId = 1, message = ''Hello'', isRead = False\<rparr>],
      nextId = 100,
      journal = []\<rparr>"

text \<open>An uploaded file for a submission.\<close>

definition exampleFile :: UploadedFile where
  "exampleFile = \<lparr>originalname = ''trees.pdf'', filename = ''7-trees.pdf''\<rparr>"

text \<open>
  The example store after manuscript 11, accepted on the review of reviewer 2, has been
  reassigned to reviewer 3.
\<close>

definition reassignedDb :: db where
  "reassignedDb = fst (assignReviewers exampleDb 11 (Some 4) (Some [3]))"





text \<open>
  A store in which manuscript 14, with a title of 400 characters, is under review by
  reviewer 8 alone, whose full name has 60 characters. Every message of a submission and
  of an assignment of this manuscript fits into 500 characters; the message that tells
  the editor and the administrator about a review by reviewer 8 does not.
\<close>

definition longTitleDb :: db where
  "longTitleDb =
     exampleDb\<lparr>
       users := exampleUsers @
         [\<lparr>uid = 8, fullname = replicate 60 (CHR ''y''), email = ''hy@uni.edu'',
           role = REVIEWER, isActive = True\<rparr>],
       manuscripts :=
         [(exampleManuscript 14 [8] UNDER_REVIEW)\<lparr>title := replicate 400 (CHR ''x'')\<rparr>]\<rparr>"

section \<open>What the persistence primitives change\<close>

lemma Notification_create_frame:
  assumes "Notification_create d u msg = Inr d'"
  shows "users d' = users d" and "manuscripts d' = manuscripts d" and "reviews d' = reviews d"
    and "\<exists>n. notifications d' = notifications d @ [n] \<and> userId n = u \<and> \<not> isRead n"
    and "journal d' = journal d @ [NotificationWrite u]"
  using assms by (auto simp: Notification_create_def split: if_splits)

lemma Notification_createAll_frame:
  "Notification_createAll d us msg = (d', r) \<Longrightarrow>
     users d' = users d \<and> manuscripts d' = manuscripts d \<and> reviews d' = reviews d"
proof (induction us arbitrary: d d' r)
  case Nil
  then show ?case by simp
next
  case (Cons u us)
  show ?case
  proof (cases "Notification_create d u msg")
    case (Inl e)
    then have "d' = fst (Notification_createAll d us msg)" using Cons.prems by simp
    then show ?thesis using Cons.IH [of d d' "snd (Notification_createAll d us msg)"] by simp
  next
    case (Inr d1)
    then have "Notification_createAll d1 us msg = (d', r)" using Cons.prems by simp
    from Cons.IH [OF this] Notification_create_frame [OF Inr] show ?thesis by simp
  qed
qed

lemma Notification_createAll_ok:
  "Notification_createAll d us msg = (d', None) \<Longrightarrow>
     (\<exists>ns. notifications d' = notifications d @ ns \<and> map userId ns = us) \<and>
     journal d' = journal d @ map NotificationWrite us"
proof (induction us arbitrary: d d')
  case Nil
  then show ?case by simp
next
  case (Cons u us)
  show ?case
  proof (cases "Notification_create d u msg")
    case (Inl e)
    then show ?thesis using Cons.prems by simp
  next
    case (Inr d1)
    then have *: "Notification_createAll d1 us msg = (d', None)" using Cons.prems by simp
    from Cons.IH [OF *] Notification_create_frame(4,5) [OF Inr] show ?thesis by auto
  qed
qed

lemma Review_create_frame:
  assumes "Review_create d i u rec com str weak sug = Inr (d', rv)"
  shows "users d' = users d" and "manuscripts d' = manuscripts d"
    and "notifications d' = notifications d" and "reviews d' = reviews d @ [rv]"
    and "manuscriptId rv = i" and "reviewerId rv = u"
    and "journal d' = journal d @ [ReviewWrite i]"
  using assms
  by (auto simp: Review_create_def Let_def split: option.splits if_splits)

lemma find_replaceFirst:
  "find (\<lambda>x. k x = i) xs = Some m \<Longrightarrow> k (f m) = i \<Longrightarrow>
     find (\<lambda>x. k x = i) (replaceFirst (\<lambda>x. k x = i) f xs) = Some (f m)"
  by (induction xs) (auto split: if_splits)

lemma Manuscript_findById_mid:
  "Manuscript_findById d i = Some m \<Longrightarrow> mid m = i"
  by (auto simp: Manuscript_findById_def find_Some_iff)

lemma Manuscript_save_found:
  "Manuscript_findById d i = Some m \<Longrightarrow> mid m' = i \<Longrightarrow>
     Manuscript_findById (Manuscript_save d m') i = Some m'"
  using find_replaceFirst [of mid i "manuscripts d" m "\<lambda>_. m'"]
  by (simp add: Manuscript_findById_def Manuscript_save_def)

lemma Manuscript_save_frame:
  "users (Manuscript_save d m) = users d"
  "reviews (Manuscript_save d m) = reviews d"
  "notifications (Manuscript_save d m) = notifications d"
  "journal (Manuscript_save d m) = journal d @ [ManuscriptWrite (mid m)]"
  by (simp_all add: Manuscript_save_def)

lemma Manuscript_findById_cong:
  "manuscripts d' = manuscripts d \<Longrightarrow> Manuscript_findById d' i = Manuscript_findById d i"
  by (simp add: Manuscript_findById_def)

lemma Manuscript_create_frame:
  assumes "Manuscript_create d t a k au fn fu u = Inr (d', m)"
  shows "users d' = users d" and "reviews d' = reviews d" and "notifications d' = notifications d"
    and "manuscripts d' = manuscripts d @ [m]" and "status m = SUBMITTED"
    and "submittedBy m = u" and "assignedReviewers m = []"
    and "journal d' = journal d @ [ManuscriptWrite (mid m)]"
  using assms by (auto simp: Manuscript_create_def Let_def split: if_splits)

lemma replaceFirst_status_fields:
  "map unchangedFields (replaceFirst p (\<lambda>x. x\<lparr>status := v\<rparr>) ms) = map unchangedFields ms"
  by (induction ms) (auto simp: unchangedFields_def)

lemma find_replaceFirst_other:
  "j \<noteq> i \<Longrightarrow> (\<And>x. k (f x) = k x) \<Longrightarrow>
     find (\<lambda>x. k x = j) (replaceFirst (\<lambda>x. k x = i) f xs) = find (\<lambda>x. k x = j) xs"
  by (induction xs) auto

lemma markRead_twice:
  "map (\<lambda>n. if userId n = u \<and> \<not> isRead n then n\<lparr>isRead := True\<rparr> else n)
     (map (\<lambda>n. if userId n = u \<and> \<not> isRead n then n\<lparr>isRead := True\<rparr> else n) ns) =
   map (\<lambda>n. if userId n = u \<and> \<not> isRead n then n\<lparr>isRead := True\<rparr> else n) ns"
  by (induction ns) auto

section \<open>Counting the reviewers that match\<close>

text \<open>
  With one user document per identifier, the query of \<open>assignReviewers\<close> returns as
  many users as identifiers were supplied exactly when the identifiers are pairwise
  distinct and each resolves to an active reviewer.
\<close>

lemma length_filter_distinct_key:
  assumes "distinct (map k xs)"
  shows "length (filter P xs) = card (k ` {x \<in> set xs. P x})"
proof -
  have "distinct (map k (filter P xs))" using assms by (rule distinct_map_filter)
  then have "card (set (map k (filter P xs))) = length (map k (filter P xs))"
    by (rule distinct_card)
  then show ?thesis by simp
qed

lemma matching_reviewers:
  assumes "distinct (map uid (users d))"
  shows "length (filter (\<lambda>u. uid u \<in> set ids \<and> role u = REVIEWER \<and> isActive u) (users d)) =
         card {i \<in> set ids. isActiveReviewer d i}"
proof -
  have "uid ` {u \<in> set (users d). uid u \<in> set ids \<and> role u = REVIEWER \<and> isActive u} =
        {i \<in> set ids. isActiveReviewer d i}"
    by (auto simp: isActiveReviewer_def list_ex_iff)
  then show ?thesis using length_filter_distinct_key [OF assms] by simp
qed

lemma matching_reviewers_all:
  assumes "distinct (map uid (users d))"
  shows "length (filter (\<lambda>u. uid u \<in> set ids \<and> role u = REVIEWER \<and> isActive u) (users d)) = length ids
         \<longleftrightarrow> distinct ids \<and> (\<forall>i \<in> set ids. isActiveReviewer d i)"
proof -
  let ?S = "{i \<in> set ids. isActiveReviewer d i}"
  have sub: "?S \<subseteq> set ids" by blast
  have le: "card ?S \<le> card (set ids)" using sub by (simp add: card_mono)
  have le2: "card (set ids) \<le> length ids" by (rule card_length)
  show ?thesis
  proof
    assume "length (filter (\<lambda>u. uid u \<in> set ids \<and> role u = REVIEWER \<and> isActive u) (users d)) = length ids"
    then have eq: "card ?S = length ids" using matching_reviewers [OF assms] by simp
    then have "card (set ids) = length ids" using le le2 by linarith
    then have dist: "distinct ids" by (rule card_distinct)
    have "card ?S = card (set ids)" using eq le le2 by linarith
    then have "?S = set ids" using sub by (simp add: card_subset_eq)
    then show "distinct ids \<and> (\<forall>i \<in> set ids. isActiveReviewer d i)" using dist by blast
  next
    assume a: "distinct ids \<and> (\<forall>i \<in> set ids. isActiveReviewer d i)"
    then have "?S = set ids" by blast
    then show "length (filter (\<lambda>u. uid u \<in> set ids \<and> role u = REVIEWER \<and> isActive u) (users d)) = length ids"
      using matching_reviewers [OF assms, of ids] a by (simp add: distinct_card)
  qed
qed

section \<open>The successful path of each handler\<close>

lemma submitManuscript_success:
  assumes "submitManuscript d file t a k au user = (d', Inr m)"
  obtains f u d1 d2 where
    "file = Some f" "user = Some u"
    "Manuscript_create d (orElse t []) (orElse a []) (orElse k []) (orElse au [])
       (originalname f) (''/uploads/manuscripts/'' @ filename f) u = Inr (d1, m)"
    "Notification_create d1 u
       (''Your manuscript '' @ dq @ orElse t [] @ dq @
        '' has been submitted successfully and is awaiting review.'') = Inr d2"
    "Notification_createAll d2 (adminsAndEditors d2)
       (''New manuscript submission: '' @ dq @ orElse t [] @ dq @ '' by '' @
        nameOf d1 u ''An author'') = (d', None)"
  using assms unfolding submitManuscript_def Let_def
  by (auto split: option.splits if_splits sum.splits prod.splits)

lemma assignReviewers_success:
  assumes "assignReviewers d i actor reviewerIds = (d', Inr saved)"
  obtains ids manuscript d2 d3 where
    "reviewerIds = Some ids" "ids \<noteq> []"
    "Manuscript_findById d i = Some manuscript"
    "length (filter (\<lambda>u. uid u \<in> set ids \<and> role u = REVIEWER \<and> isActive u) (users d)) = length ids"
    "saved = manuscript\<lparr>assignedReviewers := ids, status := UNDER_REVIEW\<rparr>"
    "Notification_create (Manuscript_save d saved) (submittedBy saved)
       (''Your manuscript '' @ dq @ title saved @ dq @
        '' has been assigned to reviewers and is now under review.'') = Inr d2"
    "Notification_createAll d2 ids
       (''You have been assigned to review the manuscript '' @ dq @ title saved @ dq @ '' by '' @
        nameOf (Manuscript_save d saved) (submittedBy saved) ''Unknown author'' @ ''.'') = (d3, None)"
    "Notification_createAll d3 (adminsAndEditors d3)
       ((case actor of None \<Rightarrow> ''An editor''
         | Some e \<Rightarrow> nameOf (Manuscript_save d saved) e ''An editor'') @
        '' assigned reviewers to manuscript '' @ dq @ title saved @ dq @ '' by '' @
        nameOf (Manuscript_save d saved) (submittedBy saved) ''Unknown author'' @ ''.'') = (d', None)"
  using assms unfolding assignReviewers_def Let_def
  by (auto split: option.splits if_splits sum.splits prod.splits)

lemma assignReviewers_effects:
  assumes "assignReviewers d i actor reviewerIds = (d', Inr saved)"
  shows "\<exists>ids m ns. reviewerIds = Some ids \<and> Manuscript_findById d i = Some m \<and>
           saved = m\<lparr>assignedReviewers := ids, status := UNDER_REVIEW\<rparr> \<and>
           Manuscript_findById d' i = Some saved \<and>
           users d' = users d \<and> reviews d' = reviews d \<and>
           notifications d' = notifications d @ ns \<and>
           map userId ns = submittedBy m # ids @ adminsAndEditors d"
proof -
  from assms obtain ids manuscript d2 d3 where
    ids: "reviewerIds = Some ids" and "ids \<noteq> []"
    and found: "Manuscript_findById d i = Some manuscript"
    and "length (filter (\<lambda>u. uid u \<in> set ids \<and> role u = REVIEWER \<and> isActive u) (users d)) = length ids"
    and saved: "saved = manuscript\<lparr>assignedReviewers := ids, status := UNDER_REVIEW\<rparr>"
    and author: "Notification_create (Manuscript_save d saved) (submittedBy saved)
       (''Your manuscript '' @ dq @ title saved @ dq @
        '' has been assigned to reviewers and is now under review.'') = Inr d2"
    and revs: "Notification_createAll d2 ids
       (''You have been assigned to review the manuscript '' @ dq @ title saved @ dq @ '' by '' @
        nameOf (Manuscript_save d saved) (submittedBy saved) ''Unknown author'' @ ''.'') = (d3, None)"
    and staff: "Notification_createAll d3 (adminsAndEditors d3)
       ((case actor of None \<Rightarrow> ''An editor''
         | Some e \<Rightarrow> nameOf (Manuscript_save d saved) e ''An editor'') @
        '' assigned reviewers to manuscript '' @ dq @ title saved @ dq @ '' by '' @
        nameOf (Manuscript_save d saved) (submittedBy saved) ''Unknown author'' @ ''.'') = (d', None)"
    by (rule assignReviewers_success)
  let ?d1 = "Manuscript_save d saved"
  have mi: "mid saved = i" using Manuscript_findById_mid [OF found] saved by simp
  have f1: "Manuscript_findById ?d1 i = Some saved"
    using Manuscript_save_found [OF found mi] .
  have ms: "manuscripts d' = manuscripts ?d1"
    using Notification_create_frame(2) [OF author] Notification_createAll_frame [OF revs]
      Notification_createAll_frame [OF staff] by simp
  have us: "users d' = users d" "users d3 = users d"
    using Notification_create_frame(1) [OF author] Notification_createAll_frame [OF revs]
      Notification_createAll_frame [OF staff] by (simp_all add: Manuscript_save_frame)
  have rs: "reviews d' = reviews d"
    using Notification_create_frame(3) [OF author] Notification_createAll_frame [OF revs]
      Notification_createAll_frame [OF staff] by (simp add: Manuscript_save_frame)
  have ae: "adminsAndEditors d3 = adminsAndEditors d"
    using us(2) by (simp add: adminsAndEditors_def)
  obtain n where n: "notifications d2 = notifications d @ [n]" "userId n = submittedBy saved"
    using Notification_create_frame(4) [OF author] by (auto simp: Manuscript_save_frame)
  obtain ns1 where ns1: "notifications d3 = notifications d2 @ ns1" "map userId ns1 = ids"
    using Notification_createAll_ok [OF revs] by auto
  obtain ns2 where ns2: "notifications d' = notifications d3 @ ns2" "map userId ns2 = adminsAndEditors d"
    using Notification_createAll_ok [OF staff] ae by auto
  have sb: "submittedBy saved = submittedBy manuscript" using saved by simp
  have "notifications d' = notifications d @ (n # ns1 @ ns2)" using n ns1 ns2 by simp
  moreover have "map userId (n # ns1 @ ns2) = submittedBy manuscript # ids @ adminsAndEditors d"
    using n ns1 ns2 sb by simp
  moreover have "Manuscript_findById d' i = Some saved"
    using f1 ms by (simp add: Manuscript_findById_def)
  ultimately show ?thesis
    using ids found saved us(1) rs
    by (intro exI [of _ ids] exI [of _ manuscript] exI [of _ "n # ns1 @ ns2"]) simp
qed

lemma submitReview_success:
  assumes "submitReview d i user rec com str weak sug = (d', Inr (review, st))"
  obtains u manuscript d1 d2 d3 where
    "user = Some u"
    "Manuscript_findById d i = Some manuscript"
    "list_ex (\<lambda>reviewer. reviewer = u) (assignedReviewers manuscript)"
    "Review_findOne d i u = None"
    "Review_create d i u rec com (orElse str []) (orElse weak []) (orElse sug []) = Inr (d1, review)"
    "Notification_create d1 (submittedBy manuscript)
       (''A review has been submitted for your manuscript '' @ dq @ title manuscript @ dq @ ''.'')
       = Inr d2"
    "Notification_createAll d2 (adminsAndEditors d2)
       (nameOf d1 u ''A reviewer'' @ '' submitted a review for manuscript '' @ dq @
        title manuscript @ dq @ '' by '' @ nameOf d1 (submittedBy manuscript) ''Unknown author'' @
        ''.'') = (d3, None)"
    "(d', st) =
       (if Review_countDocuments d3 i \<ge> length (assignedReviewers manuscript)
        then (Manuscript_save d3 (manuscript\<lparr>status := DECISION_READY\<rparr>), DECISION_READY)
        else if status manuscript = SUBMITTED
        then (Manuscript_save d3 (manuscript\<lparr>status := UNDER_REVIEW\<rparr>), UNDER_REVIEW)
        else (d3, status manuscript))"
  using assms unfolding submitReview_def Let_def
  by (auto split: option.splits if_splits sum.splits prod.splits)



lemma makeDecision_success:
  assumes "makeDecision d i actor decision = (d', Inr saved)"
  obtains manuscript d2 where
    "decision = Some ''ACCEPTED'' \<or> decision = Some ''REJECTED''"
    "Manuscript_findById d i = Some manuscript"
    "status manuscript = DECISION_READY"
    "saved = manuscript\<lparr>status := (if decision = Some ''ACCEPTED'' then ACCEPTED else REJECTED)\<rparr>"
    "Notification_create (Manuscript_save d saved) (submittedBy saved)
       (''Your manuscript '' @ dq @ title saved @ dq @ '' has been '' @
        (if decision = Some ''ACCEPTED'' then ''accepted'' else ''rejected'') @ ''.'') = Inr d2"
    "Notification_createAll d2 (admins d2)
       ((case actor of None \<Rightarrow> ''An editor''
         | Some e \<Rightarrow> nameOf (Manuscript_save d saved) e ''An editor'') @ '' '' @
        (if decision = Some ''ACCEPTED'' then ''accepted'' else ''rejected'') @
        '' the manuscript '' @ dq @ title saved @ dq @ '' by '' @
        nameOf (Manuscript_save d saved) (submittedBy saved) ''Unknown author'' @ ''.'') = (d', None)"
  using assms unfolding makeDecision_def Let_def
  by (auto split: option.splits if_splits sum.splits prod.splits)

section \<open>The order of the writes\<close>

text \<open>
  A submission, an assignment and a decision that succeed write the manuscript first and
  create the notifications afterwards. A review that succeeds stores the review, creates
  the notifications, and writes the manuscript last.
\<close>

lemma submitManuscript_journal:
  assumes "submitManuscript d file t a k au (Some u) = (d', Inr m)"
  shows "journal d' =
    journal d @ ManuscriptWrite (mid m) # NotificationWrite u #
      map NotificationWrite (adminsAndEditors d)"
proof -
  from assms obtain f u' d1 d2 where
    "file = Some f" and user: "Some u = Some u'"
    and created: "Manuscript_create d (orElse t []) (orElse a []) (orElse k []) (orElse au [])
       (originalname f) (''/uploads/manuscripts/'' @ filename f) u' = Inr (d1, m)"
    and author: "Notification_create d1 u'
       (''Your manuscript '' @ dq @ orElse t [] @ dq @
        '' has been submitted successfully and is awaiting review.'') = Inr d2"
    and staff: "Notification_createAll d2 (adminsAndEditors d2)
       (''New manuscript submission: '' @ dq @ orElse t [] @ dq @ '' by '' @
        nameOf d1 u' ''An author'') = (d', None)"
    by (rule submitManuscript_success)
  have "users d2 = users d"
    using Manuscript_create_frame(1) [OF created] Notification_create_frame(1) [OF author]
    by simp
  then have "adminsAndEditors d2 = adminsAndEditors d" by (simp add: adminsAndEditors_def)
  then show ?thesis
    using Notification_createAll_ok [OF staff] Notification_create_frame(5) [OF author]
      Manuscript_create_frame(8) [OF created] user
    by simp
qed

lemma assignReviewers_journal:
  assumes "assignReviewers d i actor (Some ids) = (d', Inr saved)"
  shows "journal d' =
    journal d @ ManuscriptWrite i # NotificationWrite (submittedBy saved) #
      map NotificationWrite (ids @ adminsAndEditors d)"
proof -
  from assms obtain ids' manuscript d2 d3 where
    ids: "Some ids = Some ids'" and "ids' \<noteq> []"
    and found: "Manuscript_findById d i = Some manuscript"
    and "length (filter (\<lambda>u. uid u \<in> set ids' \<and> role u = REVIEWER \<and> isActive u) (users d)) = length ids'"
    and saved: "saved = manuscript\<lparr>assignedReviewers := ids', status := UNDER_REVIEW\<rparr>"
    and author: "Notification_create (Manuscript_save d saved) (submittedBy saved)
       (''Your manuscript '' @ dq @ title saved @ dq @
        '' has been assigned to reviewers and is now under review.'') = Inr d2"
    and revs: "Notification_createAll d2 ids'
       (''You have been assigned to review the manuscript '' @ dq @ title saved @ dq @ '' by '' @
        nameOf (Manuscript_save d saved) (submittedBy saved) ''Unknown author'' @ ''.'') = (d3, None)"
    and staff: "Notification_createAll d3 (adminsAndEditors d3)
       ((case actor of None \<Rightarrow> ''An editor''
         | Some e \<Rightarrow> nameOf (Manuscript_save d saved) e ''An editor'') @
        '' assigned reviewers to manuscript '' @ dq @ title saved @ dq @ '' by '' @
        nameOf (Manuscript_save d saved) (submittedBy saved) ''Unknown author'' @ ''.'') = (d', None)"
    by (rule assignReviewers_success)
  have mi: "mid saved = i" using Manuscript_findById_mid [OF found] saved by simp
  have "users d3 = users d"
    using Notification_create_frame(1) [OF author] Notification_createAll_frame [OF revs]
    by (simp add: Manuscript_save_frame)
  then have "adminsAndEditors d3 = adminsAndEditors d" by (simp add: adminsAndEditors_def)
  then show ?thesis
    using Notification_createAll_ok [OF staff] Notification_createAll_ok [OF revs]
      Notification_create_frame(5) [OF author] mi ids
    by (simp add: Manuscript_save_frame)
qed

lemma makeDecision_journal:
  assumes "makeDecision d i actor decision = (d', Inr saved)"
  shows "journal d' =
    journal d @ ManuscriptWrite i # NotificationWrite (submittedBy saved) #
      map NotificationWrite (admins d)"
proof -
  from assms obtain manuscript d2 where
    "decision = Some ''ACCEPTED'' \<or> decision = Some ''REJECTED''"
    and found: "Manuscript_findById d i = Some manuscript"
    and "status manuscript = DECISION_READY"
    and saved: "saved = manuscript\<lparr>status := (if decision = Some ''ACCEPTED'' then ACCEPTED else REJECTED)\<rparr>"
    and author: "Notification_create (Manuscript_save d saved) (submittedBy saved)
       (''Your manuscript '' @ dq @ title saved @ dq @ '' has been '' @
        (if decision = Some ''ACCEPTED'' then ''accepted'' else ''rejected'') @ ''.'') = Inr d2"
    and staff: "Notification_createAll d2 (admins d2)
       ((case actor of None \<Rightarrow> ''An editor''
         | Some e \<Rightarrow> nameOf (Manuscript_save d saved) e ''An editor'') @ '' '' @
        (if decision = Some ''ACCEPTED'' then ''accepted'' else ''rejected'') @
        '' the manuscript '' @ dq @ title saved @ dq @ '' by '' @
        nameOf (Manuscript_save d saved) (submittedBy saved) ''Unknown author'' @ ''.'') = (d', None)"
    by (rule makeDecision_success)
  have mi: "mid saved = i" using Manuscript_findById_mid [OF found] saved by simp
  have "users d2 = users d"
    using Notification_create_frame(1) [OF author] by (simp add: Manuscript_save_frame)
  then have "admins d2 = admins d" by (simp add: admins_def)
  then show ?thesis
    using Notification_createAll_ok [OF staff] Notification_create_frame(5) [OF author] mi
    by (simp add: Manuscript_save_frame)
qed

lemma submitReview_journal:
  assumes "submitReview d i user rec com str weak sug = (d', Inr (review, st))"
    and "Manuscript_findById d i = Some m"
  shows "journal d' =
    journal d @ ReviewWrite i # NotificationWrite (submittedBy m) #
      map NotificationWrite (adminsAndEditors d) @
      (if length (assignedReviewers m) \<le> Review_countDocuments d' i \<or> status m = SUBMITTED
       then [ManuscriptWrite i] else [])"
proof -
  from assms(1) obtain u manuscript d1 d2 d3 where
    "user = Some u"
    and found: "Manuscript_findById d i = Some manuscript"
    and "list_ex (\<lambda>reviewer. reviewer = u) (assignedReviewers manuscript)"
    and "Review_findOne d i u = None"
    and created: "Review_create d i u rec com (orElse str []) (orElse weak []) (orElse sug []) = Inr (d1, review)"
    and author: "Notification_create d1 (submittedBy manuscript)
       (''A review has been submitted for your manuscript '' @ dq @ title manuscript @ dq @ ''.'')
       = Inr d2"
    and staff: "Notification_createAll d2 (adminsAndEditors d2)
       (nameOf d1 u ''A reviewer'' @ '' submitted a review for manuscript '' @ dq @
        title manuscript @ dq @ '' by '' @ nameOf d1 (submittedBy manuscript) ''Unknown author'' @
        ''.'') = (d3, None)"
    and final: "(d', st) =
       (if Review_countDocuments d3 i \<ge> length (assignedReviewers manuscript)
        then (Manuscript_save d3 (manuscript\<lparr>status := DECISION_READY\<rparr>), DECISION_READY)
        else if status manuscript = SUBMITTED
        then (Manuscript_save d3 (manuscript\<lparr>status := UNDER_REVIEW\<rparr>), UNDER_REVIEW)
        else (d3, status manuscript))"
    by (rule submitReview_success)
  have m: "manuscript = m" using found assms(2) by simp
  have mi: "mid m = i" using assms(2) by (rule Manuscript_findById_mid)
  have "users d2 = users d"
    using Review_create_frame(1) [OF created] Notification_create_frame(1) [OF author] by simp
  then have ae: "adminsAndEditors d2 = adminsAndEditors d" by (simp add: adminsAndEditors_def)
  have j3: "journal d3 = journal d @ ReviewWrite i # NotificationWrite (submittedBy m) #
      map NotificationWrite (adminsAndEditors d)"
    using Notification_createAll_ok [OF staff] Notification_create_frame(5) [OF author]
      Review_create_frame(7) [OF created] ae m by simp
  have rs': "reviews d' = reviews d3"
    using final by (auto simp: Manuscript_save_frame split: if_splits)
  have cnt: "Review_countDocuments d' i = Review_countDocuments d3 i"
    using rs' by (simp add: Review_countDocuments_def)
  show ?thesis
    using final m mi j3 cnt by (auto simp: Manuscript_save_frame split: if_splits)
qed

section \<open>Review intake\<close>



section \<open>The terminal statuses\<close>




section \<open>A second review by the same reviewer\<close>

text \<open>
  C3 (amended). When a review of the reviewer for the manuscript is recorded, a further
  submission by that reviewer for that manuscript always fails and leaves the store as it
  was, whatever the status of the manuscript. It fails with the conflict error when the
  manuscript exists and the reviewer is still in its assigned set, with the authorization
  error when the reviewer is no longer assigned, and with the not-found error when the
  manuscript is absent.
\<close>

theorem submitReview_second:
  assumes "r \<in> set (reviews d)" and "manuscriptId r = i" and "reviewerId r = u"
  shows "fst (submitReview d i (Some u) rec com str weak sug) = d \<and>
    isl (snd (submitReview d i (Some u) rec com str weak sug)) \<and>
    (Manuscript_findById d i = Some m \<and> u \<in> set (assignedReviewers m) \<longrightarrow>
       snd (submitReview d i (Some u) rec com str weak sug) =
         Inl (Rejected ConflictError 400
                ''You have already submitted a review for this manuscript'')) \<and>
    (Manuscript_findById d i = Some m \<and> u \<notin> set (assignedReviewers m) \<longrightarrow>
       snd (submitReview d i (Some u) rec com str weak sug) =
         Inl (Rejected AuthorizationError 403
                ''You are not assigned to review this manuscript'')) \<and>
    (Manuscript_findById d i = None \<longrightarrow>
       snd (submitReview d i (Some u) rec com str weak sug) =
         Inl (Rejected NotFoundError 404 ''Manuscript not found''))"
proof -
  have "Review_findOne d i u \<noteq> None"
    using assms by (auto simp: Review_findOne_def find_None_iff)
  then obtain x where x: "Review_findOne d i u = Some x" by blast
  show ?thesis
  proof (cases "Manuscript_findById d i")
    case None
    then show ?thesis by (simp add: submitReview_def)
  next
    case (Some m')
    then show ?thesis using x by (simp add: submitReview_def list_ex_iff)
  qed
qed

theorem submitReview_second_witness:
  "submitReview exampleDb 11 (Some 2) (Some ''REJECT'') (Some ''Again.'') None None None =
     (exampleDb, Inl (Rejected ConflictError 400
        ''You have already submitted a review for this manuscript''))"
proof -
  let ?run = "submitReview exampleDb 11 (Some 2) (Some ''REJECT'') (Some ''Again.'') None None None"
  have r: "exampleReview \<in> set (reviews exampleDb)" by (simp add: exampleDb_def)
  have k: "manuscriptId exampleReview = 11" "reviewerId exampleReview = 2"
    by (simp_all add: exampleReview_def)
  have f: "Manuscript_findById exampleDb 11 = Some (exampleManuscript 11 [2] ACCEPTED)"
    by code_simp
  have a: "2 \<in> set (assignedReviewers (exampleManuscript 11 [2] ACCEPTED))"
    by (simp add: exampleManuscript_def)
  have "fst ?run = exampleDb \<and> snd ?run = Inl (Rejected ConflictError 400
        ''You have already submitted a review for this manuscript'')"
    using submitReview_second [OF r k, of "Some ''REJECT''" "Some ''Again.''" None None None
        "exampleManuscript 11 [2] ACCEPTED"] f a by simp
  then show ?thesis by (simp add: prod_eq_iff)
qed

theorem submitReview_second_counterexample:
  "exampleReview \<in> set (reviews reassignedDb) \<and>
   manuscriptId exampleReview = 11 \<and> reviewerId exampleReview = 2 \<and>
   snd (submitReview reassignedDb 11 (Some 2) (Some ''REJECT'') (Some ''Again.'') None None None) =
     Inl (Rejected AuthorizationError 403 ''You are not assigned to review this manuscript'')"
proof -
  have "reviews reassignedDb = [exampleReview]" by code_simp
  moreover have "manuscriptId exampleReview = 11" "reviewerId exampleReview = 2"
    by (simp_all add: exampleReview_def)
  moreover have "snd (submitReview reassignedDb 11 (Some 2) (Some ''REJECT'') (Some ''Again.'')
                        None None None) =
     Inl (Rejected AuthorizationError 403 ''You are not assigned to review this manuscript'')"
    by code_simp
  ultimately show ?thesis by simp
qed

section \<open>Decisions\<close>

text \<open>
  C4. On an existing manuscript whose status is not DECISION_READY (ACCEPTED and REJECTED
  included), a decision ACCEPTED or REJECTED is refused with the state error, the store is
  returned as it was and the manuscript keeps its status. Any other decision value, a
  missing one included, is refused with the validation error.
\<close>

theorem makeDecision_guards:
  "(Manuscript_findById d i = Some m \<and> status m \<noteq> DECISION_READY \<and>
      decision \<in> {Some ''ACCEPTED'', Some ''REJECTED''} \<longrightarrow>
        makeDecision d i actor decision =
          (d, Inl (Rejected StateError 400
                 ''Manuscript must be in DECISION_READY status before making a decision'')) \<and>
        statusOf (fst (makeDecision d i actor decision)) i = Some (status m)) \<and>
   (decision \<notin> {Some ''ACCEPTED'', Some ''REJECTED''} \<longrightarrow>
        makeDecision d i actor decision =
          (d, Inl (Rejected ValidationError 400
                 ''Please provide a valid decision (ACCEPTED or REJECTED)'')))"
  by (auto simp: makeDecision_def falsy_def statusOf_def)

theorem makeDecision_guards_witness:
  "makeDecision exampleDb 10 (Some 4) (Some ''ACCEPTED'') =
     (exampleDb, Inl (Rejected StateError 400
        ''Manuscript must be in DECISION_READY status before making a decision'')) \<and>
   makeDecision exampleDb 11 (Some 4) (Some ''REJECTED'') =
     (exampleDb, Inl (Rejected StateError 400
        ''Manuscript must be in DECISION_READY status before making a decision'')) \<and>
   makeDecision exampleDb 10 (Some 4) (Some ''MAYBE'') =
     (exampleDb, Inl (Rejected ValidationError 400
        ''Please provide a valid decision (ACCEPTED or REJECTED)'')) \<and>
   makeDecision exampleDb 10 (Some 4) None =
     (exampleDb, Inl (Rejected ValidationError 400
        ''Please provide a valid decision (ACCEPTED or REJECTED)''))"
proof -
  have fa: "Manuscript_findById exampleDb 10 = Some (exampleManuscript 10 [2, 3] UNDER_REVIEW)"
    by code_simp
  have fb: "Manuscript_findById exampleDb 11 = Some (exampleManuscript 11 [2] ACCEPTED)"
    by code_simp
  have "makeDecision exampleDb 10 (Some 4) (Some ''ACCEPTED'') =
     (exampleDb, Inl (Rejected StateError 400
        ''Manuscript must be in DECISION_READY status before making a decision''))"
    using makeDecision_guards [of exampleDb 10 "exampleManuscript 10 [2, 3] UNDER_REVIEW"
        "Some ''ACCEPTED''" "Some 4"] fa
    by (simp add: exampleManuscript_def)
  moreover have "makeDecision exampleDb 11 (Some 4) (Some ''REJECTED'') =
     (exampleDb, Inl (Rejected StateError 400
        ''Manuscript must be in DECISION_READY status before making a decision''))"
    using makeDecision_guards [of exampleDb 11 "exampleManuscript 11 [2] ACCEPTED"
        "Some ''REJECTED''" "Some 4"] fb
    by (simp add: exampleManuscript_def)
  moreover have "makeDecision exampleDb 10 (Some 4) (Some ''MAYBE'') =
     (exampleDb, Inl (Rejected ValidationError 400
        ''Please provide a valid decision (ACCEPTED or REJECTED)''))"
    using makeDecision_guards [of exampleDb 10 "exampleManuscript 10 [2, 3] UNDER_REVIEW"
        "Some ''MAYBE''" "Some 4"]
    by simp
  moreover have "makeDecision exampleDb 10 (Some 4) None =
     (exampleDb, Inl (Rejected ValidationError 400
        ''Please provide a valid decision (ACCEPTED or REJECTED)''))"
    using makeDecision_guards [of exampleDb 10 "exampleManuscript 10 [2, 3] UNDER_REVIEW"
        None "Some 4"]
    by simp
  ultimately show ?thesis by blast
qed

section \<open>Notifications and the status write of a review\<close>

text \<open>
  C5. When reviewer 3 submits the only review due for manuscript 13 of the example store,
  the writes are, in this order: the review, the notification of the author (1), the
  notifications of the editor (4) and the administrator (5), and only then the
  manuscript with its new status.
\<close>

theorem submitReview_notifies_before_status_write:
  "journal (fst (submitReview exampleDb 13 (Some 3) (Some ''ACCEPT'') (Some ''Good.'') None None None)) =
     [ReviewWrite 13, NotificationWrite 1, NotificationWrite 4, NotificationWrite 5,
      ManuscriptWrite 13] \<and>
   statusOf (fst (submitReview exampleDb 13 (Some 3) (Some ''ACCEPT'') (Some ''Good.'') None None None)) 13 =
     Some DECISION_READY"
  by code_simp

text \<open>
  What the order costs. A submission with the title of 400 characters and an assignment
  of manuscript 14 to reviewer 8 succeed with all their notifications. In the store with
  the long title, the review of reviewer 8 is stored and the author is notified, the
  notification of the editor is refused, and the handler throws before it writes the
  status. All assigned reviewers have reviewed, the manuscript stays UNDER_REVIEW, and
  the reviewer who tries again is refused.
\<close>

lemma longTitle_earlier_steps_succeed:
  "\<not> isl (snd (submitManuscript exampleDb (Some exampleFile) (Some (replicate 400 (CHR ''x'')))
             (Some ''Lists.'') (Some ''lists'') (Some ''Ada'') (Some 1))) \<and>
   \<not> isl (snd (assignReviewers longTitleDb 14 (Some 4) (Some [8])))"
  by code_simp

lemma submitReview_partial_commit:
  "snd (submitReview longTitleDb 14 (Some 8) (Some ''ACCEPT'') (Some ''Good.'') None None None) =
     Inl (Thrown ''ValidationError'') \<and>
   Review_countDocuments
     (fst (submitReview longTitleDb 14 (Some 8) (Some ''ACCEPT'') (Some ''Good.'') None None None)) 14 = 1 \<and>
   journal
     (fst (submitReview longTitleDb 14 (Some 8) (Some ''ACCEPT'') (Some ''Good.'') None None None)) =
     [ReviewWrite 14, NotificationWrite 1] \<and>
   statusOf
     (fst (submitReview longTitleDb 14 (Some 8) (Some ''ACCEPT'') (Some ''Good.'') None None None)) 14 =
     Some UNDER_REVIEW \<and>
   snd (submitReview
     (fst (submitReview longTitleDb 14 (Some 8) (Some ''ACCEPT'') (Some ''Good.'') None None None))
     14 (Some 8) (Some ''ACCEPT'') (Some ''Good.'') None None None) =
     Inl (Rejected ConflictError 400 ''You have already submitted a review for this manuscript'')"
  by code_simp

section \<open>Assignment of reviewers\<close>

text \<open>
  C6 (amended). An assignment is refused with the validation error when the list of
  reviewer identifiers is missing or empty, whether or not the manuscript exists; with a
  list that is not empty it is refused with the not-found error when the manuscript is
  absent; on an existing manuscript it is refused with the validation error when one of
  the identifiers does not resolve to an active user with role REVIEWER. When it succeeds,
  the assigned reviewers of the manuscript are exactly the identifiers supplied, its
  status is UNDER_REVIEW, the reviews are as before, and the notifications created are one
  for the author, then one for each assigned reviewer, then one for each user with role
  ADMIN or EDITOR.
\<close>

theorem assignReviewers_contract:
  assumes "distinct (map uid (users d))"
  shows
    "(reviewerIds = None \<or> reviewerIds = Some [] \<longrightarrow>
        assignReviewers d i actor reviewerIds =
          (d, Inl (Rejected ValidationError 400 ''Please provide an array of reviewer IDs''))) \<and>
     (reviewerIds = Some ids \<and> ids \<noteq> [] \<and> Manuscript_findById d i = None \<longrightarrow>
        assignReviewers d i actor reviewerIds =
          (d, Inl (Rejected NotFoundError 404 ''Manuscript not found''))) \<and>
     (reviewerIds = Some ids \<and> ids \<noteq> [] \<and> Manuscript_findById d i = Some m \<and>
      (\<exists>r \<in> set ids. \<not> isActiveReviewer d r) \<longrightarrow>
        assignReviewers d i actor reviewerIds =
          (d, Inl (Rejected ValidationError 400
                 ''One or more invalid reviewer IDs or reviewers are not active''))) \<and>
     (reviewerIds = Some ids \<and> Manuscript_findById d i = Some m \<and>
      assignReviewers d i actor reviewerIds = (d', Inr saved) \<longrightarrow>
        map_option assignedReviewers (Manuscript_findById d' i) = Some ids \<and>
        statusOf d' i = Some UNDER_REVIEW \<and>
        reviews d' = reviews d \<and>
        (\<exists>ns. notifications d' = notifications d @ ns \<and>
              map userId ns = submittedBy m # ids @ adminsAndEditors d))"
proof -
  have p1: "reviewerIds = None \<or> reviewerIds = Some [] \<longrightarrow>
        assignReviewers d i actor reviewerIds =
          (d, Inl (Rejected ValidationError 400 ''Please provide an array of reviewer IDs''))"
    by (auto simp: assignReviewers_def)
  have p2: "reviewerIds = Some ids \<and> ids \<noteq> [] \<and> Manuscript_findById d i = None \<longrightarrow>
        assignReviewers d i actor reviewerIds =
          (d, Inl (Rejected NotFoundError 404 ''Manuscript not found''))"
    by (simp add: assignReviewers_def)
  have p3: "reviewerIds = Some ids \<and> ids \<noteq> [] \<and> Manuscript_findById d i = Some m \<and>
      (\<exists>r \<in> set ids. \<not> isActiveReviewer d r) \<longrightarrow>
        assignReviewers d i actor reviewerIds =
          (d, Inl (Rejected ValidationError 400
                 ''One or more invalid reviewer IDs or reviewers are not active''))"
  proof
    assume a: "reviewerIds = Some ids \<and> ids \<noteq> [] \<and> Manuscript_findById d i = Some m \<and>
      (\<exists>r \<in> set ids. \<not> isActiveReviewer d r)"
    then have "length (filter (\<lambda>u. uid u \<in> set ids \<and> role u = REVIEWER \<and> isActive u) (users d))
                 \<noteq> length ids"
      using matching_reviewers_all [OF assms, of ids] by blast
    then show "assignReviewers d i actor reviewerIds =
          (d, Inl (Rejected ValidationError 400
                 ''One or more invalid reviewer IDs or reviewers are not active''))"
      using a by (simp add: assignReviewers_def)
  qed
  have p4: "reviewerIds = Some ids \<and> Manuscript_findById d i = Some m \<and>
      assignReviewers d i actor reviewerIds = (d', Inr saved) \<longrightarrow>
        map_option assignedReviewers (Manuscript_findById d' i) = Some ids \<and>
        statusOf d' i = Some UNDER_REVIEW \<and>
        reviews d' = reviews d \<and>
        (\<exists>ns. notifications d' = notifications d @ ns \<and>
              map userId ns = submittedBy m # ids @ adminsAndEditors d)"
  proof
    assume a: "reviewerIds = Some ids \<and> Manuscript_findById d i = Some m \<and>
      assignReviewers d i actor reviewerIds = (d', Inr saved)"
    then have run: "assignReviewers d i actor reviewerIds = (d', Inr saved)"
      by (elim conjE)
    from assignReviewers_effects [OF run] a obtain ns where
      s: "saved = m\<lparr>assignedReviewers := ids, status := UNDER_REVIEW\<rparr>"
      and f: "Manuscript_findById d' i = Some saved"
      and r: "reviews d' = reviews d"
      and n: "notifications d' = notifications d @ ns"
         "map userId ns = submittedBy m # ids @ adminsAndEditors d"
      by auto
    show "map_option assignedReviewers (Manuscript_findById d' i) = Some ids \<and>
        statusOf d' i = Some UNDER_REVIEW \<and>
        reviews d' = reviews d \<and>
        (\<exists>ns. notifications d' = notifications d @ ns \<and>
              map userId ns = submittedBy m # ids @ adminsAndEditors d)"
      using s f r n by (simp add: statusOf_def)
  qed
  show ?thesis by (rule conjI [OF p1 conjI [OF p2 conjI [OF p3 p4]]])
qed

theorem assignReviewers_contract_witness:
  "assignReviewers exampleDb 10 (Some 4) (Some []) =
     (exampleDb, Inl (Rejected ValidationError 400 ''Please provide an array of reviewer IDs'')) \<and>
   assignReviewers exampleDb 99 (Some 4) (Some [2]) =
     (exampleDb, Inl (Rejected NotFoundError 404 ''Manuscript not found'')) \<and>
   assignReviewers exampleDb 10 (Some 4) (Some [2, 6]) =
     (exampleDb, Inl (Rejected ValidationError 400
        ''One or more invalid reviewer IDs or reviewers are not active'')) \<and>
   statusOf (fst (assignReviewers exampleDb 10 (Some 4) (Some [3, 7]))) 10 = Some UNDER_REVIEW \<and>
   map_option assignedReviewers
     (Manuscript_findById (fst (assignReviewers exampleDb 10 (Some 4) (Some [3, 7]))) 10) = Some [3, 7] \<and>
   map userId (notifications (fst (assignReviewers exampleDb 10 (Some 4) (Some [3, 7])))) =
     [1, 2, 1] @ [1] @ [3, 7] @ [4, 5]"
proof -
  let ?m = "exampleManuscript 10 [2, 3] UNDER_REVIEW"
  let ?run = "assignReviewers exampleDb 10 (Some 4) (Some [3, 7])"
  have u: "distinct (map uid (users exampleDb))" by code_simp
  have f: "Manuscript_findById exampleDb 10 = Some ?m" by code_simp
  have g: "Manuscript_findById exampleDb 99 = None" by code_simp
  have r: "\<not> isActiveReviewer exampleDb 6" by code_simp
  have old: "map userId (notifications exampleDb) = [1, 2, 1]" by code_simp
  have staff: "adminsAndEditors exampleDb = [4, 5]" by code_simp
  have sb: "submittedBy ?m = 1" by (simp add: exampleManuscript_def)
  have "snd ?run = Inr (exampleManuscript 10 [3, 7] UNDER_REVIEW)" by code_simp
  then have run: "?run = (fst ?run, Inr (exampleManuscript 10 [3, 7] UNDER_REVIEW))"
    by (simp add: prod_eq_iff)
  have 1: "assignReviewers exampleDb 10 (Some 4) (Some []) =
     (exampleDb, Inl (Rejected ValidationError 400 ''Please provide an array of reviewer IDs''))"
    using assignReviewers_contract [OF u, of "Some []"] by simp
  have 2: "assignReviewers exampleDb 99 (Some 4) (Some [2]) =
     (exampleDb, Inl (Rejected NotFoundError 404 ''Manuscript not found''))"
    using assignReviewers_contract [OF u, of "Some [2]" 99 "Some 4" "[2]"] g by simp
  have 3: "assignReviewers exampleDb 10 (Some 4) (Some [2, 6]) =
     (exampleDb, Inl (Rejected ValidationError 400
        ''One or more invalid reviewer IDs or reviewers are not active''))"
    using assignReviewers_contract [OF u, of "Some [2, 6]" 10 "Some 4" "[2, 6]" ?m] f r by simp
  have 4: "map_option assignedReviewers (Manuscript_findById (fst ?run) 10) = Some [3, 7] \<and>
        statusOf (fst ?run) 10 = Some UNDER_REVIEW \<and>
        (\<exists>ns. notifications (fst ?run) = notifications exampleDb @ ns \<and>
              map userId ns = submittedBy ?m # [3, 7] @ adminsAndEditors exampleDb)"
    using assignReviewers_contract [OF u, of "Some [3, 7]" 10 "Some 4" "[3, 7]" ?m "fst ?run"
        "exampleManuscript 10 [3, 7] UNDER_REVIEW"] f run by simp
  then obtain ns where "notifications (fst ?run) = notifications exampleDb @ ns"
      "map userId ns = 1 # [3, 7] @ [4, 5]"
    using sb staff by auto
  then have 5: "map userId (notifications (fst ?run)) = [1, 2, 1] @ [1] @ [3, 7] @ [4, 5]"
    using old by simp
  show ?thesis using 1 2 3 4 5 by blast
qed

theorem assignReviewers_contract_counterexample:
  "Manuscript_findById exampleDb 99 = None \<and>
   assignReviewers exampleDb 99 (Some 4) (Some []) =
     (exampleDb, Inl (Rejected ValidationError 400 ''Please provide an array of reviewer IDs''))"
  by (simp add: assignReviewers_def Manuscript_findById_def exampleDb_def exampleManuscript_def)

section \<open>Submission\<close>

text \<open>
  C7. A submission that succeeds appends to the notifications exactly one notification
  for the submitting author, followed by exactly one for each user whose role is ADMIN or
  EDITOR, whatever the title, abstract, keywords, authors and file of the submission.
\<close>

theorem submitManuscript_fanout:
  assumes "submitManuscript d file t a k au user = (d', Inr m)"
  shows "\<exists>u ns. user = Some u \<and> submittedBy m = u \<and> status m = SUBMITTED \<and>
           notifications d' = notifications d @ ns \<and>
           map userId ns = u # adminsAndEditors d \<and>
           length ns = 1 + length (filter (\<lambda>x. role x = ADMIN \<or> role x = EDITOR) (users d))"
proof -
  from assms obtain f u d1 d2 where
    "file = Some f" and user: "user = Some u"
    and created: "Manuscript_create d (orElse t []) (orElse a []) (orElse k []) (orElse au [])
       (originalname f) (''/uploads/manuscripts/'' @ filename f) u = Inr (d1, m)"
    and author: "Notification_create d1 u
       (''Your manuscript '' @ dq @ orElse t [] @ dq @
        '' has been submitted successfully and is awaiting review.'') = Inr d2"
    and staff: "Notification_createAll d2 (adminsAndEditors d2)
       (''New manuscript submission: '' @ dq @ orElse t [] @ dq @ '' by '' @
        nameOf d1 u ''An author'') = (d', None)"
    by (rule submitManuscript_success)
  have us: "users d2 = users d"
    using Manuscript_create_frame(1) [OF created] Notification_create_frame(1) [OF author]
    by simp
  then have ae: "adminsAndEditors d2 = adminsAndEditors d"
    by (simp add: adminsAndEditors_def)
  obtain n where n: "notifications d2 = notifications d @ [n]" "userId n = u"
    using Notification_create_frame(4) [OF author] Manuscript_create_frame(3) [OF created]
    by auto
  obtain ns where ns: "notifications d' = notifications d2 @ ns" "map userId ns = adminsAndEditors d"
    using Notification_createAll_ok [OF staff] ae by auto
  have "notifications d' = notifications d @ (n # ns)" using n ns by simp
  moreover have "map userId (n # ns) = u # adminsAndEditors d" using n ns by simp
  moreover have "length (n # ns) = 1 + length (filter (\<lambda>x. role x = ADMIN \<or> role x = EDITOR) (users d))"
  proof -
    have "length ns = length (map userId ns)" by simp
    also have "\<dots> = length (adminsAndEditors d)" by (simp only: ns(2))
    also have "\<dots> = length (filter (\<lambda>x. role x = ADMIN \<or> role x = EDITOR) (users d))"
      by (simp add: adminsAndEditors_def)
    finally show ?thesis by simp
  qed
  ultimately show ?thesis
    using user Manuscript_create_frame(5,6) [OF created] by (intro exI [of _ u] exI [of _ "n # ns"]) simp
qed

theorem submitManuscript_fanout_witness:
  "map userId (notifications (fst (submitManuscript exampleDb (Some exampleFile) (Some ''On Trees'')
      (Some ''Trees.'') (Some ''trees'') (Some ''Ada'') (Some 1)))) = [1, 2, 1] @ [1, 4, 5]"
proof -
  let ?run = "submitManuscript exampleDb (Some exampleFile) (Some ''On Trees'')
      (Some ''Trees.'') (Some ''trees'') (Some ''Ada'') (Some 1)"
  let ?m = "\<lparr>mid = 100, title = ''On Trees'', abstract = ''Trees.'', keywordsM = ''trees'',
             authors = ''Ada'', submittedBy = 1, assignedReviewers = [], status = SUBMITTED,
             fileName = ''trees.pdf'', fileUrl = Some ''/uploads/manuscripts/7-trees.pdf''\<rparr>"
  have "snd ?run = Inr ?m" by code_simp
  then have run: "?run = (fst ?run, Inr ?m)" by (simp add: prod_eq_iff)
  have old: "map userId (notifications exampleDb) = [1, 2, 1]" by code_simp
  have staff: "adminsAndEditors exampleDb = [4, 5]" by code_simp
  from submitManuscript_fanout [OF run] obtain ns where
    "notifications (fst ?run) = notifications exampleDb @ ns" "map userId ns = 1 # adminsAndEditors exampleDb"
    by auto
  then show ?thesis using old staff by simp
qed

section \<open>Marking notifications as read\<close>

text \<open>
  C8. Marking all notifications of a user as read a second time leaves the four
  collections as the first call left them; the call never fails, whatever the number of
  unread notifications, and the second call modifies no document.
\<close>

theorem markAllAsRead_idempotent:
  "store (fst (markAllAsRead (fst (markAllAsRead d u)) u)) = store (fst (markAllAsRead d u)) \<and>
   \<not> isl (snd (markAllAsRead d u)) \<and>
   snd (markAllAsRead (fst (markAllAsRead d u)) u) = Inr 0"
  by (simp add: markAllAsRead_def store_def markRead_twice filter_map comp_def)

theorem markAllAsRead_idempotent_witness:
  "snd (markAllAsRead exampleDb 1) = Inr 2 \<and>
   map isRead (notifications (fst (markAllAsRead exampleDb 1))) = [True, True, True] \<and>
   store (fst (markAllAsRead (fst (markAllAsRead exampleDb 1)) 1)) =
     store (fst (markAllAsRead exampleDb 1)) \<and>
   snd (markAllAsRead (fst (markAllAsRead exampleDb 4)) 4) = Inr 0"
proof -
  have "snd (markAllAsRead exampleDb 1) = Inr 2" by code_simp
  moreover have "map isRead (notifications (fst (markAllAsRead exampleDb 1))) = [True, True, True]"
    by code_simp
  ultimately show ?thesis
    using markAllAsRead_idempotent [of exampleDb 1] markAllAsRead_idempotent [of exampleDb 4]
    by blast
qed

section \<open>Duplicated reviewer identifiers\<close>

text \<open>
  C9 (amended). On an existing manuscript, an assignment whose list of reviewer
  identifiers names an identifier twice is refused with the validation error for invalid
  reviewer identifiers, also when every identifier resolves to an active reviewer: the
  matching users, one per identifier, are fewer than the entries of the list.
\<close>

theorem assignReviewers_duplicate:
  assumes "distinct (map uid (users d))"
    and "Manuscript_findById d i = Some m"
    and "\<not> distinct ids"
  shows "assignReviewers d i actor (Some ids) =
           (d, Inl (Rejected ValidationError 400
                  ''One or more invalid reviewer IDs or reviewers are not active''))"
proof -
  have "ids \<noteq> []" using assms(3) by auto
  moreover have "length (filter (\<lambda>u. uid u \<in> set ids \<and> role u = REVIEWER \<and> isActive u) (users d))
                 \<noteq> length ids"
    using matching_reviewers_all [OF assms(1), of ids] assms(3) by simp
  ultimately show ?thesis using assms(2) by (simp add: assignReviewers_def)
qed

theorem assignReviewers_duplicate_witness:
  "isActiveReviewer exampleDb 2 \<and>
   assignReviewers exampleDb 10 (Some 4) (Some [2, 2]) =
     (exampleDb, Inl (Rejected ValidationError 400
        ''One or more invalid reviewer IDs or reviewers are not active''))"
proof -
  have u: "distinct (map uid (users exampleDb))" by code_simp
  have f: "Manuscript_findById exampleDb 10 = Some (exampleManuscript 10 [2, 3] UNDER_REVIEW)"
    by code_simp
  have r: "isActiveReviewer exampleDb 2" by code_simp
  have n: "\<not> distinct [2, 2 :: nat]" by simp
  show ?thesis using assignReviewers_duplicate [OF u f n, of "Some 4"] r by simp
qed

theorem assignReviewers_duplicate_counterexample:
  "\<not> distinct [2, 2 :: nat] \<and> isActiveReviewer exampleDb 2 \<and>
   assignReviewers exampleDb 99 (Some 4) (Some [2, 2]) =
     (exampleDb, Inl (Rejected NotFoundError 404 ''Manuscript not found''))"
  by (simp add: assignReviewers_def Manuscript_findById_def isActiveReviewer_def exampleDb_def
      exampleUsers_def exampleManuscript_def)

section \<open>The administrative status override\<close>

text \<open>
  C10. For an existing manuscript and a valid status value, the override stores the new
  status for that manuscript and changes nothing else: every other field of every
  manuscript, the status of every other manuscript, the users, the reviews and the
  notifications are as before.
\<close>

theorem updateManuscriptStatus_frame:
  assumes "Manuscript_findById d i = Some m" and "parseStatus s = Some v"
  shows "snd (updateManuscriptStatus d i (Some s)) = Inr (m\<lparr>status := v\<rparr>) \<and>
    statusOf (fst (updateManuscriptStatus d i (Some s))) i = Some v \<and>
    map unchangedFields (manuscripts (fst (updateManuscriptStatus d i (Some s)))) =
      map unchangedFields (manuscripts d) \<and>
    (j \<noteq> i \<longrightarrow> statusOf (fst (updateManuscriptStatus d i (Some s))) j = statusOf d j) \<and>
    users (fst (updateManuscriptStatus d i (Some s))) = users d \<and>
    reviews (fst (updateManuscriptStatus d i (Some s))) = reviews d \<and>
    notifications (fst (updateManuscriptStatus d i (Some s))) = notifications d"
proof -
  have run: "updateManuscriptStatus d i (Some s) =
      (d\<lparr>manuscripts := replaceFirst (\<lambda>x. mid x = i) (\<lambda>x. x\<lparr>status := v\<rparr>) (manuscripts d),
         journal := journal d @ [ManuscriptWrite i]\<rparr>, Inr (m\<lparr>status := v\<rparr>))"
    using assms by (simp add: updateManuscriptStatus_def)
  have "find (\<lambda>x. mid x = i) (replaceFirst (\<lambda>x. mid x = i) (\<lambda>x. x\<lparr>status := v\<rparr>) (manuscripts d))
          = Some (m\<lparr>status := v\<rparr>)"
    using assms(1) Manuscript_findById_mid [OF assms(1)]
    by (intro find_replaceFirst) (simp_all add: Manuscript_findById_def)
  moreover have "j \<noteq> i \<Longrightarrow>
      find (\<lambda>x. mid x = j) (replaceFirst (\<lambda>x. mid x = i) (\<lambda>x. x\<lparr>status := v\<rparr>) (manuscripts d))
          = find (\<lambda>x. mid x = j) (manuscripts d)"
    by (rule find_replaceFirst_other) simp_all
  ultimately show ?thesis
    unfolding run
    by (simp add: statusOf_def Manuscript_findById_def replaceFirst_status_fields)
qed

theorem updateManuscriptStatus_frame_witness:
  "statusOf (fst (updateManuscriptStatus exampleDb 11 (Some ''SUBMITTED''))) 11 = Some SUBMITTED \<and>
   statusOf (fst (updateManuscriptStatus exampleDb 11 (Some ''SUBMITTED''))) 10 = Some UNDER_REVIEW \<and>
   map unchangedFields (manuscripts (fst (updateManuscriptStatus exampleDb 11 (Some ''SUBMITTED'')))) =
     map unchangedFields (manuscripts exampleDb) \<and>
   reviews (fst (updateManuscriptStatus exampleDb 11 (Some ''SUBMITTED''))) = [exampleReview] \<and>
   length (notifications (fst (updateManuscriptStatus exampleDb 11 (Some ''SUBMITTED'')))) = 3"
proof -
  have f: "Manuscript_findById exampleDb 11 = Some (exampleManuscript 11 [2] ACCEPTED)"
    by code_simp
  have p: "parseStatus ''SUBMITTED'' = Some SUBMITTED" by code_simp
  have s: "statusOf exampleDb 10 = Some UNDER_REVIEW" by code_simp
  have r: "reviews exampleDb = [exampleReview]" by (simp add: exampleDb_def)
  have n: "length (notifications exampleDb) = 3" by (simp add: exampleDb_def)
  show ?thesis
    using updateManuscriptStatus_frame [OF f p, of 10] s r n by simp
qed

end
